theory Spec2Isabelle
  imports Complex_Main
begin

section \<open>Numbers and vectors\<close>

text \<open>
  The simulation core of the game is written in TypeScript. Every \<^verbatim>\<open>number\<close> of the source
  is modelled as a \<^typ>\<open>real\<close>: the development reasons about the arithmetic the code
  writes down, not about the rounding of IEEE doubles, and the special values of doubles
  (NaN, the infinities, the negative zero) have no counterpart here. The ammunition counter,
  which the code only ever initialises to a whole number and decrements by one, is an
  \<^typ>\<open>int\<close>.

  Mutation is explicit state passing: a function that mutates a record in the source takes
  the record and returns the new one.

  The vector and quaternion classes come from the three.js library. The operations the game
  logic uses are written out below as the library computes them; scene-graph objects (meshes,
  materials, groups, lights) carry no game state and are left out.
\<close>

datatype Vector3 = Vector3 (vx: real) (vy: real) (vz: real)

datatype Quaternion = Quaternion (qx: real) (qy: real) (qz: real) (qw: real)

definition subVectors :: "Vector3 \<Rightarrow> Vector3 \<Rightarrow> Vector3" where
  "subVectors a b = Vector3 (vx a - vx b) (vy a - vy b) (vz a - vz b)"

definition addVectors :: "Vector3 \<Rightarrow> Vector3 \<Rightarrow> Vector3" where
  "addVectors a b = Vector3 (vx a + vx b) (vy a + vy b) (vz a + vz b)"

definition multiplyScalar :: "Vector3 \<Rightarrow> real \<Rightarrow> Vector3" where
  "multiplyScalar v s = Vector3 (vx v * s) (vy v * s) (vz v * s)"

definition addScaledVector :: "Vector3 \<Rightarrow> Vector3 \<Rightarrow> real \<Rightarrow> Vector3" where
  "addScaledVector a v s = Vector3 (vx a + vx v * s) (vy a + vy v * s) (vz a + vz v * s)"

definition dot :: "Vector3 \<Rightarrow> Vector3 \<Rightarrow> real" where
  "dot a b = vx a * vx b + vy a * vy b + vz a * vz b"

definition lengthSq :: "Vector3 \<Rightarrow> real" where
  "lengthSq v = vx v * vx v + vy v * vy v + vz v * vz v"

definition vlength :: "Vector3 \<Rightarrow> real" where
  "vlength v = sqrt (vx v * vx v + vy v * vy v + vz v * vz v)"

definition distanceTo :: "Vector3 \<Rightarrow> Vector3 \<Rightarrow> real" where
  "distanceTo a b = vlength (subVectors a b)"

text \<open>\<^verbatim>\<open>normalize()\<close> is \<^verbatim>\<open>divideScalar(length() || 1)\<close>: the zero vector stays as it is.\<close>

definition normalize :: "Vector3 \<Rightarrow> Vector3" where
  "normalize v = (let l = vlength v; d = (if l = 0 then 1 else l)
                  in multiplyScalar v (1 / d))"

text \<open>Rotation of a vector by a quaternion: \<^verbatim>\<open>t = 2 (q.xyz \<times> v)\<close>, then
  \<^verbatim>\<open>v + q.w t + q.xyz \<times> t\<close>.\<close>

definition applyQuaternion :: "Vector3 \<Rightarrow> Quaternion \<Rightarrow> Vector3" where
  "applyQuaternion v q =
     (let tx = 2 * (qy q * vz v - qz q * vy v);
          ty = 2 * (qz q * vx v - qx q * vz v);
          tz = 2 * (qx q * vy v - qy q * vx v)
      in Vector3 (vx v + qw q * tx + qy q * tz - qz q * ty)
                 (vy v + qw q * ty + qz q * tx - qx q * tz)
                 (vz v + qw q * tz + qx q * ty - qy q * tx))"

definition setFromAxisAngle :: "Vector3 \<Rightarrow> real \<Rightarrow> Quaternion" where
  "setFromAxisAngle axis angle =
     (let halfAngle = angle / 2; s = sin halfAngle
      in Quaternion (vx axis * s) (vy axis * s) (vz axis * s) (cos halfAngle))"

definition qmultiply :: "Quaternion \<Rightarrow> Quaternion \<Rightarrow> Quaternion" where
  "qmultiply a b = Quaternion
     (qx a * qw b + qw a * qx b + qy a * qz b - qz a * qy b)
     (qy a * qw b + qw a * qy b + qz a * qx b - qx a * qz b)
     (qz a * qw b + qw a * qz b + qx a * qy b - qy a * qx b)
     (qw a * qw b - qx a * qx b - qy a * qy b - qz a * qz b)"

definition qnormalize :: "Quaternion \<Rightarrow> Quaternion" where
  "qnormalize q =
     (let l = sqrt (qx q * qx q + qy q * qy q + qz q * qz q + qw q * qw q)
      in if l = 0 then Quaternion 0 0 0 1
         else Quaternion (qx q * (1 / l)) (qy q * (1 / l)) (qz q * (1 / l)) (qw q * (1 / l)))"

section \<open>Input (input-manager.ts)\<close>

text \<open>
  The input manager holds the set of keys that are down and the set of keys pressed since
  they were last asked for. \<^verbatim>\<open>wasJustPressed\<close> consumes the one-shot flag, so it returns the
  answer together with the updated manager.
\<close>

record InputManager =
  keys :: "string set"
  justPressed :: "string set"

definition isPressed :: "InputManager \<Rightarrow> string \<Rightarrow> bool" where
  "isPressed inp code = (code \<in> keys inp)"

definition wasJustPressed :: "InputManager \<Rightarrow> string \<Rightarrow> bool \<times> InputManager" where
  "wasJustPressed inp code =
     (if code \<in> justPressed inp
      then (True, inp\<lparr>justPressed := justPressed inp - {code}\<rparr>)
      else (False, inp))"

definition onKeyDown :: "InputManager \<Rightarrow> string \<Rightarrow> InputManager" where
  "onKeyDown inp code =
     (let i1 = (if code \<notin> keys inp then inp\<lparr>justPressed := insert code (justPressed inp)\<rparr>
                else inp)
      in i1\<lparr>keys := insert code (keys i1)\<rparr>)"

definition onKeyUp :: "InputManager \<Rightarrow> string \<Rightarrow> InputManager" where
  "onKeyUp inp code = inp\<lparr>keys := keys inp - {code}\<rparr>"

section \<open>Game state (game-state.ts)\<close>

record GameState =
  position :: Vector3
  quaternion :: Quaternion
  velocity :: Vector3
  throttle :: real
  speed :: real
  isWarp :: bool
  shieldsActive :: bool
  shieldStrength :: real
  phaserCharge :: real
  torpedoCount :: int
  phaserFiring :: bool
  torpedoFiring :: bool
  heading :: real
  bearing :: real
  speedDisplay :: string

definition INITIAL_TORPEDO_COUNT :: int where "INITIAL_TORPEDO_COUNT = 64"

definition createGameState :: GameState where
  "createGameState =
     \<lparr>position = Vector3 0 0 0, quaternion = Quaternion 0 0 0 1, velocity = Vector3 0 0 0,
      throttle = 0, speed = 0, isWarp = False,
      shieldsActive = False, shieldStrength = 100,
      phaserCharge = 100, torpedoCount = INITIAL_TORPEDO_COUNT,
      phaserFiring = False, torpedoFiring = False,
      heading = 0, bearing = 0, speedDisplay = ''All Stop''\<rparr>"

section \<open>Flight model (ship-controller.ts)\<close>

definition PITCH_SPEED :: real where "PITCH_SPEED = 0.8"
definition YAW_SPEED :: real where "YAW_SPEED = 0.8"
definition ROLL_SPEED :: real where "ROLL_SPEED = 1.0"
definition IMPULSE_MAX_SPEED :: real where "IMPULSE_MAX_SPEED = 1.0"
definition WARP_MULTIPLIER :: real where "WARP_MULTIPLIER = 8.0"
definition MOVEMENT_SCALE :: real where "MOVEMENT_SCALE = 15.0"
definition PHASER_RECHARGE :: real where "PHASER_RECHARGE = 10"

text \<open>
  \<^verbatim>\<open>updateShip\<close> is one straight-line function; it is cut here into its commented blocks,
  in the order of the source. In the rotation block the second \<^verbatim>\<open>if\<close> of each pair
  overwrites the first, so \<^verbatim>\<open>KeyW\<close>, \<^verbatim>\<open>KeyE\<close> and \<^verbatim>\<open>KeyD\<close> win when both keys are held.
\<close>

definition rotateShip :: "GameState \<Rightarrow> InputManager \<Rightarrow> real \<Rightarrow> GameState" where
  "rotateShip state inp delta =
     (let pitchDelta = (if isPressed inp ''KeyW'' then - PITCH_SPEED * delta
                        else if isPressed inp ''KeyS'' then PITCH_SPEED * delta else 0);
          yawDelta = (if isPressed inp ''KeyE'' then - YAW_SPEED * delta
                      else if isPressed inp ''KeyQ'' then YAW_SPEED * delta else 0);
          rollDelta = (if isPressed inp ''KeyD'' then - ROLL_SPEED * delta
                       else if isPressed inp ''KeyA'' then ROLL_SPEED * delta else 0);
          q0 = quaternion state;
          q1 = (if pitchDelta \<noteq> 0
                then qmultiply q0 (setFromAxisAngle (Vector3 1 0 0) pitchDelta) else q0);
          q2 = (if yawDelta \<noteq> 0
                then qmultiply q1 (setFromAxisAngle (Vector3 0 1 0) yawDelta) else q1);
          q3 = (if rollDelta \<noteq> 0
                then qmultiply q2 (setFromAxisAngle (Vector3 0 0 1) rollDelta) else q2)
      in state\<lparr>quaternion := qnormalize q3\<rparr>)"

text \<open>The key code \<^verbatim>\<open>`Digit${d}`\<close> for \<open>d\<close> from 0 to 9.\<close>

definition digitCode :: "nat \<Rightarrow> string" where
  "digitCode d = ''Digit'' @ [''0123456789'' ! d]"

definition throttleKey :: "GameState \<times> InputManager \<Rightarrow> nat \<Rightarrow> GameState \<times> InputManager" where
  "throttleKey si d =
     (let (hit, inp') = wasJustPressed (snd si) (digitCode d)
      in if hit then ((fst si)\<lparr>throttle := (if d = 0 then 0 else real d / 9)\<rparr>, inp')
         else (fst si, inp'))"

definition setThrottle :: "GameState \<Rightarrow> InputManager \<Rightarrow> GameState \<times> InputManager" where
  "setThrottle state inp = foldl throttleKey (state, inp) [0..<10]"

definition warpToggle :: "GameState \<Rightarrow> InputManager \<Rightarrow> GameState \<times> InputManager" where
  "warpToggle state inp =
     (let (hit, inp') = wasJustPressed inp ''CapsLock'';
          s1 = (if hit
                then (if \<not> isWarp state \<and> throttle state > 0.1
                      then state\<lparr>isWarp := True\<rparr> else state\<lparr>isWarp := False\<rparr>)
                else state);
          s2 = (if isWarp s1 \<and> throttle s1 \<le> 0.05 then s1\<lparr>isWarp := False\<rparr> else s1)
      in (s2, inp'))"

definition integrateSpeed :: "GameState \<Rightarrow> real \<Rightarrow> GameState" where
  "integrateSpeed state delta =
     (let targetSpeed = throttle state * IMPULSE_MAX_SPEED;
          effectiveTarget = (if isWarp state then targetSpeed * WARP_MULTIPLIER else targetSpeed);
          accelRate = 2.5
      in if speed state < effectiveTarget
         then state\<lparr>speed := min effectiveTarget (speed state + accelRate * delta)\<rparr>
         else if speed state > effectiveTarget
         then state\<lparr>speed := max effectiveTarget (speed state - accelRate * delta)\<rparr>
         else state)"

definition integratePosition :: "GameState \<Rightarrow> real \<Rightarrow> GameState" where
  "integratePosition state delta =
     (let forward = applyQuaternion (Vector3 0 0 (- 1)) (quaternion state);
          v = multiplyScalar forward (speed state * MOVEMENT_SCALE)
      in state\<lparr>velocity := v, position := addScaledVector (position state) v delta\<rparr>)"

definition weaponTriggers :: "GameState \<Rightarrow> InputManager \<Rightarrow> real \<Rightarrow> GameState \<times> InputManager" where
  "weaponTriggers state inp delta =
     (let s1 = (if phaserCharge state < 100
                then state\<lparr>phaserCharge := min 100 (phaserCharge state + PHASER_RECHARGE * delta)\<rparr>
                else state);
          s2 = s1\<lparr>phaserFiring := (isPressed inp ''Space'' \<and> phaserCharge s1 > 5)\<rparr>;
          (hit, inp') = wasJustPressed inp ''KeyT'';
          s3 = s2\<lparr>torpedoFiring := (hit \<and> torpedoCount s2 > 0)\<rparr>
      in (s3, inp'))"

definition shieldControl :: "GameState \<Rightarrow> InputManager \<Rightarrow> real \<Rightarrow> GameState \<times> InputManager" where
  "shieldControl state inp delta =
     (let (hit, inp') = wasJustPressed inp ''KeyX'';
          s1 = (if hit then state\<lparr>shieldsActive := \<not> shieldsActive state\<rparr> else state);
          s2 = (if shieldsActive s1 \<and> shieldStrength s1 > 0
                then (let s = s1\<lparr>shieldStrength := max 0 (shieldStrength s1 - 0.5 * delta)\<rparr>
                      in if shieldStrength s \<le> 0 then s\<lparr>shieldsActive := False\<rparr> else s)
                else s1)
      in (s2, inp'))"

definition updateShip :: "GameState \<Rightarrow> InputManager \<Rightarrow> real \<Rightarrow> GameState \<times> InputManager" where
  "updateShip state inp delta =
     (let s1 = rotateShip state inp delta;
          (s2, i2) = setThrottle s1 inp;
          (s3, i3) = warpToggle s2 i2;
          s4 = integrateSpeed s3 delta;
          s5 = integratePosition s4 delta;
          (s6, i6) = weaponTriggers s5 i3 delta
      in shieldControl s6 i6 delta)"

section \<open>Projectiles (effects.ts) and the weapon system (weapon-system.ts)\<close>

text \<open>
  Of a projectile only what the game logic reads is kept: the age and maximal age of a
  phaser beam, the material opacity of a beam core (its lifetime is tracked through it), and
  the position (the position of its mesh), velocity, age, maximal age and optional homing
  target of a torpedo.
\<close>

record PhaserBeam =
  age :: real
  maxAge :: real

record PhaserCore =
  opacity :: real

record PhotonTorpedo =
  position :: Vector3
  velocity :: Vector3
  age :: real
  maxAge :: real
  targetPosition :: "Vector3 option"

definition TORPEDO_SPEED :: real where "TORPEDO_SPEED = 80"
definition TORPEDO_HOMING_TURN :: real where "TORPEDO_HOMING_TURN = 3.0"

definition createPhaserBeamMesh :: "Vector3 \<Rightarrow> Vector3 \<Rightarrow> PhaserBeam" where
  "createPhaserBeamMesh origin direction = \<lparr>PhaserBeam.age = 0, PhaserBeam.maxAge = 0.5\<rparr>"

definition createPhaserCoreMesh :: "Vector3 \<Rightarrow> Vector3 \<Rightarrow> PhaserCore" where
  "createPhaserCoreMesh origin direction = \<lparr>opacity = 0.3\<rparr>"

definition createTorpedoMesh :: "Vector3 \<Rightarrow> Vector3 \<Rightarrow> PhotonTorpedo" where
  "createTorpedoMesh origin direction =
     \<lparr>position = origin,
      velocity = multiplyScalar (normalize direction) TORPEDO_SPEED,
      age = 0, maxAge = 5.0, targetPosition = None\<rparr>"

text \<open>\<^verbatim>\<open>angleTo\<close> and \<^verbatim>\<open>lerp\<close> of the vector class, used by the homing steer.\<close>

definition angleTo :: "Vector3 \<Rightarrow> Vector3 \<Rightarrow> real" where
  "angleTo a b =
     (let denominator = sqrt (lengthSq a * lengthSq b)
      in if denominator = 0 then pi / 2
         else arccos (max (- 1) (min 1 (dot a b / denominator))))"

definition lerp :: "Vector3 \<Rightarrow> Vector3 \<Rightarrow> real \<Rightarrow> Vector3" where
  "lerp a b t = Vector3 (vx a + (vx b - vx a) * t) (vy a + (vy b - vy a) * t)
                        (vz a + (vz b - vz a) * t)"

definition steerTorpedo :: "PhotonTorpedo \<Rightarrow> real \<Rightarrow> PhotonTorpedo" where
  "steerTorpedo torpedo delta =
     (case targetPosition torpedo of
        None \<Rightarrow> torpedo
      | Some target \<Rightarrow>
          let toTarget = subVectors target (PhotonTorpedo.position torpedo);
              dist = vlength toTarget
          in if dist > 1 then
               let desiredDir = normalize toTarget;
                   currentDir = normalize (PhotonTorpedo.velocity torpedo);
                   currentSpeed = vlength (PhotonTorpedo.velocity torpedo);
                   maxTurn = TORPEDO_HOMING_TURN * delta;
                   angle = angleTo currentDir desiredDir;
                   newDir = (if angle > 0.001
                             then normalize (lerp currentDir desiredDir (min (maxTurn / angle) 1))
                             else currentDir)
               in torpedo\<lparr>PhotonTorpedo.velocity := multiplyScalar newDir currentSpeed\<rparr>
             else torpedo)"

definition updateTorpedo :: "PhotonTorpedo \<Rightarrow> real \<Rightarrow> PhotonTorpedo" where
  "updateTorpedo torpedo delta =
     (let t1 = steerTorpedo torpedo delta;
          t2 = t1\<lparr>PhotonTorpedo.position :=
                    addScaledVector (PhotonTorpedo.position t1) (PhotonTorpedo.velocity t1) delta\<rparr>
      in t2\<lparr>PhotonTorpedo.age := PhotonTorpedo.age t2 + delta\<rparr>)"

definition PHASER_ORIGIN_OFFSET :: Vector3 where "PHASER_ORIGIN_OFFSET = Vector3 0 0.6 (- 3.5)"
definition TORPEDO_ORIGIN_OFFSET :: Vector3 where "TORPEDO_ORIGIN_OFFSET = Vector3 0 (- 0.4) (- 2.5)"
definition PHASER_DRAIN_RATE :: real where "PHASER_DRAIN_RATE = 35"
definition PHASER_COOLDOWN :: real where "PHASER_COOLDOWN = 0.15"

record WeaponSystemState =
  phaserBeams :: "PhaserBeam list"
  phaserCores :: "PhaserCore list"
  torpedoes :: "PhotonTorpedo list"
  phaserCooldown :: real

definition createWeaponSystem :: WeaponSystemState where
  "createWeaponSystem = \<lparr>phaserBeams = [], phaserCores = [], torpedoes = [], phaserCooldown = 0\<rparr>"

text \<open>
  \<^verbatim>\<open>updateWeapons\<close>, block by block. The three ageing loops run from the last index to the
  first and splice expired entries out, which keeps the others in their order: each is a
  \<open>map\<close> followed by a \<open>filter\<close>.
\<close>

definition firePhasers ::
  "WeaponSystemState \<Rightarrow> GameState \<Rightarrow> real \<Rightarrow> WeaponSystemState" where
  "firePhasers ws gameState delta =
     (let w1 = ws\<lparr>phaserCooldown := max 0 (phaserCooldown ws - delta)\<rparr>
      in if GameState.phaserFiring gameState \<and> phaserCharge gameState > 5
            \<and> phaserCooldown w1 \<le> 0
         then
           let origin = addVectors (applyQuaternion PHASER_ORIGIN_OFFSET (quaternion gameState))
                          (GameState.position gameState);
               direction = applyQuaternion (Vector3 0 0 (- 1)) (quaternion gameState)
           in w1\<lparr>phaserBeams := phaserBeams w1 @ [createPhaserBeamMesh origin direction],
                 phaserCores := phaserCores w1 @ [createPhaserCoreMesh origin direction],
                 phaserCooldown := PHASER_COOLDOWN\<rparr>
         else w1)"

definition drainPhasers :: "GameState \<Rightarrow> real \<Rightarrow> GameState" where
  "drainPhasers gameState delta =
     (if GameState.phaserFiring gameState then
        let g = gameState\<lparr>phaserCharge := max 0 (phaserCharge gameState - PHASER_DRAIN_RATE * delta)\<rparr>
        in if phaserCharge g \<le> 0 then g\<lparr>GameState.phaserFiring := False\<rparr> else g
      else gameState)"

definition ageBeams :: "PhaserBeam list \<Rightarrow> real \<Rightarrow> PhaserBeam list" where
  "ageBeams beams delta =
     filter (\<lambda>beam. \<not> PhaserBeam.age beam \<ge> PhaserBeam.maxAge beam)
       (map (\<lambda>beam. beam\<lparr>PhaserBeam.age := PhaserBeam.age beam + delta\<rparr>) beams)"

definition ageCores :: "PhaserCore list \<Rightarrow> real \<Rightarrow> PhaserCore list" where
  "ageCores cores delta =
     filter (\<lambda>core. \<not> opacity core \<le> 0)
       (map (\<lambda>core. core\<lparr>opacity := opacity core - delta * 0.6\<rparr>) cores)"

definition fireTorpedo ::
  "WeaponSystemState \<Rightarrow> GameState \<Rightarrow> WeaponSystemState \<times> GameState" where
  "fireTorpedo ws gameState =
     (if torpedoFiring gameState \<and> torpedoCount gameState > 0 then
        let origin = addVectors (applyQuaternion TORPEDO_ORIGIN_OFFSET (quaternion gameState))
                       (GameState.position gameState);
            direction = applyQuaternion (Vector3 0 0 (- 1)) (quaternion gameState);
            torpedo = createTorpedoMesh origin direction
        in (ws\<lparr>torpedoes := torpedoes ws @ [torpedo]\<rparr>,
            gameState\<lparr>torpedoCount := torpedoCount gameState - 1, torpedoFiring := False\<rparr>)
      else (ws, gameState))"

definition ageTorpedoes :: "PhotonTorpedo list \<Rightarrow> real \<Rightarrow> PhotonTorpedo list" where
  "ageTorpedoes torps delta =
     filter (\<lambda>torp. \<not> PhotonTorpedo.age torp \<ge> PhotonTorpedo.maxAge torp)
       (map (\<lambda>torp. updateTorpedo torp delta) torps)"

definition updateWeapons ::
  "WeaponSystemState \<Rightarrow> GameState \<Rightarrow> real \<Rightarrow> WeaponSystemState \<times> GameState" where
  "updateWeapons ws gameState delta =
     (let w1 = firePhasers ws gameState delta;
          g1 = drainPhasers gameState delta;
          w2 = w1\<lparr>phaserBeams := ageBeams (phaserBeams w1) delta\<rparr>;
          w3 = w2\<lparr>phaserCores := ageCores (phaserCores w2) delta\<rparr>;
          (w4, g2) = fireTorpedo w3 g1
      in (w4\<lparr>torpedoes := ageTorpedoes (torpedoes w4) delta\<rparr>, g2))"

section \<open>Combat and damage (combat-system.ts)\<close>

definition PHASER_DPS :: real where "PHASER_DPS = 8"
definition TORPEDO_DAMAGE :: real where "TORPEDO_DAMAGE = 18"
definition HIT_DISTANCE_TORPEDO :: real where "HIT_DISTANCE_TORPEDO = 12"
definition SHIELD_ABSORPTION :: real where "SHIELD_ABSORPTION = 0.7"

text \<open>The field \<^verbatim>\<open>hull\<close> is \<open>hull_hp\<close> here: \<open>hull\<close> is an operator of the logic.\<close>

record ShipHealth =
  hull_hp :: real
  maxHull :: real
  shieldsUp :: bool
  shieldStrength :: real
  isDestroyed :: bool
  damageFlash :: real

datatype GameOver = victory | defeat

text \<open>The field \<^verbatim>\<open>gameOver: 'victory' | 'defeat' | null\<close>: \<open>None\<close> is \<^verbatim>\<open>null\<close>.\<close>

record CombatState =
  playerHealth :: ShipHealth
  enemyHealth :: ShipHealth
  gameOver :: "GameOver option"

definition createShipHealth :: "real \<Rightarrow> ShipHealth" where
  "createShipHealth m =
     \<lparr>hull_hp = m, maxHull = m, shieldsUp = False, shieldStrength = 100,
      isDestroyed = False, damageFlash = 0\<rparr>"

definition createCombatState :: CombatState where
  "createCombatState =
     \<lparr>playerHealth = createShipHealth 100, enemyHealth = createShipHealth 100,
      gameOver = None\<rparr>"

text \<open>
  \<^verbatim>\<open>applyDamage\<close>, statement by statement: the early return on a destroyed ship, the shield
  branch (which may drop the shields), the hull update, the damage flash and the destruction
  test.
\<close>

definition shieldStage :: "ShipHealth \<Rightarrow> real \<Rightarrow> ShipHealth \<times> real" where
  "shieldStage health rawDamage =
     (if shieldsUp health \<and> shieldStrength health > 0 then
        let absorbed = rawDamage * SHIELD_ABSORPTION;
            h1 = health\<lparr>shieldStrength := max 0 (shieldStrength health - absorbed * 0.5)\<rparr>;
            h2 = (if shieldStrength h1 \<le> 0 then h1\<lparr>shieldsUp := False\<rparr> else h1)
        in (h2, rawDamage - absorbed)
      else (health, rawDamage))"

definition applyDamage :: "ShipHealth \<Rightarrow> real \<Rightarrow> ShipHealth" where
  "applyDamage health rawDamage =
     (if isDestroyed health then health
      else
        let (h2, effectiveDamage) = shieldStage health rawDamage;
            h3 = h2\<lparr>hull_hp := max 0 (hull_hp h2 - effectiveDamage)\<rparr>;
            h4 = h3\<lparr>damageFlash := 1\<rparr>
        in if hull_hp h4 \<le> 0 then h4\<lparr>isDestroyed := True\<rparr> else h4)"


definition decayFlash :: "ShipHealth \<Rightarrow> real \<Rightarrow> ShipHealth" where
  "decayFlash h delta =
     (if damageFlash h > 0 then h\<lparr>damageFlash := max 0 (damageFlash h - 3 * delta)\<rparr> else h)"

text \<open>\<^verbatim>\<open>if (!combat.gameOver)\<close>: both outcome strings are truthy, only \<^verbatim>\<open>null\<close> passes.\<close>

definition updateCombatTimers :: "CombatState \<Rightarrow> real \<Rightarrow> CombatState" where
  "updateCombatTimers combat delta =
     (let c1 = combat\<lparr>playerHealth := decayFlash (playerHealth combat) delta\<rparr>;
          c2 = c1\<lparr>enemyHealth := decayFlash (enemyHealth c1) delta\<rparr>
      in if gameOver c2 = None then
           (if isDestroyed (enemyHealth c2) then c2\<lparr>gameOver := Some victory\<rparr>
            else if isDestroyed (playerHealth c2) then c2\<lparr>gameOver := Some defeat\<rparr>
            else c2)
         else c2)"

text \<open>
  A sequence of calls on one combat state: damage to either ship (every caller of
  \<^verbatim>\<open>applyDamage\<close> passes one of the two health records of the state) and the per-frame
  timer tick.
\<close>

datatype CombatCall = DamagePlayer real | DamageEnemy real | Timers real

fun combatCall :: "CombatState \<Rightarrow> CombatCall \<Rightarrow> CombatState" where
  "combatCall c (DamagePlayer r) = c\<lparr>playerHealth := applyDamage (playerHealth c) r\<rparr>"
| "combatCall c (DamageEnemy r) = c\<lparr>enemyHealth := applyDamage (enemyHealth c) r\<rparr>"
| "combatCall c (Timers delta) = updateCombatTimers c delta"

definition combatCalls :: "CombatState \<Rightarrow> CombatCall list \<Rightarrow> CombatState" where
  "combatCalls c calls = foldl combatCall c calls"


text \<open>Player weapons against the enemy, and the mirror of the player's shields.\<close>

definition checkPhaserHits ::
  "CombatState \<Rightarrow> GameState \<Rightarrow> Vector3 \<Rightarrow> real \<Rightarrow> CombatState \<times> bool" where
  "checkPhaserHits combat playerState enemyPosition delta =
     (if \<not> GameState.phaserFiring playerState \<or> isDestroyed (enemyHealth combat)
      then (combat, False)
      else
        let toEnemy = subVectors enemyPosition (GameState.position playerState);
            dist = vlength toEnemy
        in if dist > 200 then (combat, False)
           else
             let forward = applyQuaternion (Vector3 0 0 (- 1)) (GameState.quaternion playerState);
                 d = dot forward (normalize toEnemy);
                 minDot = max 0.85 (1.0 - (30 / max dist 1))
             in if d > minDot
                then (combat\<lparr>enemyHealth := applyDamage (enemyHealth combat) (PHASER_DPS * delta)\<rparr>,
                      True)
                else (combat, False))"

definition torpedoHit ::
  "Vector3 \<Rightarrow> CombatState \<times> nat list \<Rightarrow> nat \<times> Vector3 \<Rightarrow> CombatState \<times> nat list" where
  "torpedoHit enemyPosition ch ip =
     (if distanceTo (snd ip) enemyPosition < HIT_DISTANCE_TORPEDO
      then ((fst ch)\<lparr>enemyHealth := applyDamage (enemyHealth (fst ch)) TORPEDO_DAMAGE\<rparr>,
            snd ch @ [fst ip])
      else ch)"

definition checkTorpedoHits ::
  "CombatState \<Rightarrow> Vector3 list \<Rightarrow> Vector3 \<Rightarrow> CombatState \<times> nat list" where
  "checkTorpedoHits combat torpedoPositions enemyPosition =
     (if isDestroyed (enemyHealth combat) then (combat, [])
      else foldl (torpedoHit enemyPosition) (combat, []) (enumerate 0 torpedoPositions))"

definition syncPlayerShields :: "CombatState \<Rightarrow> GameState \<Rightarrow> CombatState" where
  "syncPlayerShields combat gs =
     combat\<lparr>playerHealth := (playerHealth combat)
        \<lparr>shieldsUp := shieldsActive gs, shieldStrength := GameState.shieldStrength gs\<rparr>\<rparr>"

section \<open>Enemy AI (enemy-ai.ts)\<close>


datatype EnemyBehavior = idle | alert | attack | evasive

text \<open>The field \<open>phaserBeam\<close> records whether the beam mesh exists (\<^verbatim>\<open>null\<close> is \<open>False\<close>).\<close>

record EnemyShip =
  position :: Vector3
  quaternion :: Quaternion
  behavior :: EnemyBehavior
  speed :: real
  phaserCooldown :: real
  torpedoCooldown :: real
  phaserFiring :: bool
  torpedoJustFired :: bool
  alertTimer :: real
  orbitAngle :: real
  orbitCenter :: Vector3
  orbitRadius :: real
  modelReady :: bool
  phaserBeam :: bool
  phaserBeamAge :: real
















section \<open>Missions (mission-system.ts) and their rewards (EnterpriseGame.vue)\<close>

text \<open>
  Of a mission and its objectives the fields that the logic reads are kept; the texts shown
  to the player (type, description, briefing, reward) are left out. The status and the
  rating are the strings of the source. The field \<^verbatim>\<open>id\<close> is \<open>id_mission\<close> here, \<open>id\<close> being
  the identity function of the logic.
\<close>

record MissionObjective =
  systemId :: string
  completed :: bool

record Mission =
  id_mission :: string
  title :: string
  status :: string
  sourceSystemId :: string
  objectives :: "MissionObjective list"
  torpedoReward :: int
  shieldReward :: real

record MissionState =
  missions :: "Mission list"
  activeMissionId :: "string option"
  completedCount :: nat
  rating :: string

definition objective :: "string \<Rightarrow> MissionObjective" where
  "objective sys = \<lparr>systemId = sys, completed = False\<rparr>"

definition template ::
  "string \<Rightarrow> string \<Rightarrow> MissionObjective list \<Rightarrow> int \<Rightarrow> real \<Rightarrow> Mission" where
  "template t src objs tr sr =
     \<lparr>id_mission = [], title = t, status = ''available'', sourceSystemId = src,
      objectives = objs, torpedoReward = tr, shieldReward = sr\<rparr>"

definition MISSION_TEMPLATES :: "Mission list" where
  "MISSION_TEMPLATES =
     [template ''First Contact at Vulcan'' ''sol'' [objective ''vulcan''] 10 0,
      template ''Wolf 359 Memorial Patrol'' ''sol''
        [objective ''wolf359'', objective ''sol''] 15 50,
      template ''Supply Run to Alpha Centauri'' ''sol'' [objective ''alpha-centauri''] 8 0,
      template ''Survey the Rigel System'' ''vulcan''
        [objective ''rigel'', objective ''vulcan''] 20 100,
      template ''Andorian Alliance'' ''vulcan'' [objective ''andoria''] 12 30,
      template ''Frontier Reconnaissance'' ''deep-space-5''
        [objective ''frontier'', objective ''deep-space-5''] 30 100,
      template ''Starbase 74 Inspection'' ''sol'' [objective ''starbase74''] 10 0,
      template ''Betazed Diplomacy'' ''sol''
        [objective ''alpha-centauri'', objective ''betazed''] 15 100]"

text \<open>The identifier \<^verbatim>\<open>`mission-${i}`\<close>, for the indices of the eight templates.\<close>

definition missionName :: "nat \<Rightarrow> string" where
  "missionName i = ''mission-'' @ [''0123456789'' ! i]"

definition createMissionState :: MissionState where
  "createMissionState =
     \<lparr>missions = map (\<lambda>(i, t). t\<lparr>id_mission := missionName i\<rparr>) (enumerate 0 MISSION_TEMPLATES),
      activeMissionId = None, completedCount = 0, rating = ''Ensign''\<rparr>"

text \<open>
  \<^verbatim>\<open>find\<close> returns the mission object itself, so a write to it is a write to the first
  element of the list that passes the test.
\<close>

fun updateFirst :: "('a \<Rightarrow> bool) \<Rightarrow> ('a \<Rightarrow> 'a) \<Rightarrow> 'a list \<Rightarrow> 'a list" where
  "updateFirst P f [] = []"
| "updateFirst P f (x # xs) = (if P x then f x # xs else x # updateFirst P f xs)"

text \<open>\<^verbatim>\<open>if (state.activeMissionId)\<close>: \<^verbatim>\<open>null\<close> and the empty string are both falsy.\<close>

definition hasActiveMission :: "MissionState \<Rightarrow> bool" where
  "hasActiveMission state =
     (case activeMissionId state of None \<Rightarrow> False | Some a \<Rightarrow> a \<noteq> [])"

definition acceptMission :: "MissionState \<Rightarrow> string \<Rightarrow> MissionState \<times> bool" where
  "acceptMission state missionId =
     (if hasActiveMission state then (state, False)
      else
        case find (\<lambda>m. id_mission m = missionId) (missions state) of
          None \<Rightarrow> (state, False)
        | Some mission \<Rightarrow>
            if status mission \<noteq> ''available'' then (state, False)
            else (state\<lparr>missions := updateFirst (\<lambda>m. id_mission m = missionId)
                                       (\<lambda>m. m\<lparr>status := ''active''\<rparr>) (missions state),
                        activeMissionId := Some missionId\<rparr>, True))"

definition updateRating :: "MissionState \<Rightarrow> MissionState" where
  "updateRating state =
     (let count = completedCount state
      in if count \<ge> 7 then state\<lparr>rating := ''Admiral''\<rparr>
         else if count \<ge> 5 then state\<lparr>rating := ''Captain''\<rparr>
         else if count \<ge> 3 then state\<lparr>rating := ''Commander''\<rparr>
         else if count \<ge> 1 then state\<lparr>rating := ''Lieutenant''\<rparr>
         else state\<lparr>rating := ''Ensign''\<rparr>)"

text \<open>The loop over the objectives marks the first open one of the current system.\<close>

fun markObjective :: "MissionObjective list \<Rightarrow> string \<Rightarrow> MissionObjective list" where
  "markObjective [] sys = []"
| "markObjective (obj # objs) sys =
     (if \<not> completed obj \<and> systemId obj = sys then obj\<lparr>completed := True\<rparr> # objs
      else obj # markObjective objs sys)"

text \<open>The result \<^verbatim>\<open>{ completed, mission }\<close> is returned with the updated mission state.\<close>

definition checkMissionObjectives ::
  "MissionState \<Rightarrow> string \<Rightarrow> MissionState \<times> bool \<times> Mission option" where
  "checkMissionObjectives state currentSystemId =
     (if \<not> hasActiveMission state then (state, False, None)
      else
        case find (\<lambda>m. Some (id_mission m) = activeMissionId state) (missions state) of
          None \<Rightarrow> (state, False, None)
        | Some mission \<Rightarrow>
            if status mission \<noteq> ''active'' then (state, False, None)
            else
              let m1 = mission\<lparr>objectives := markObjective (objectives mission) currentSystemId\<rparr>;
                  allDone = list_all completed (objectives m1)
              in if allDone then
                   let m2 = m1\<lparr>status := ''completed''\<rparr>;
                       s1 = state\<lparr>missions :=
                                    updateFirst (\<lambda>m. Some (id_mission m) = activeMissionId state)
                                      (\<lambda>m. m2) (missions state),
                                  activeMissionId := None,
                                  completedCount := completedCount state + 1\<rparr>
                   in (updateRating s1, True, Some m2)
                 else
                   (state\<lparr>missions :=
                            updateFirst (\<lambda>m. Some (id_mission m) = activeMissionId state)
                              (\<lambda>m. m1) (missions state)\<rparr>,
                    False, Some m1))"

text \<open>
  The block of the game loop in \<^verbatim>\<open>EnterpriseGame.vue\<close> that runs when the ship has arrived
  in a system: it checks the mission objectives and, on a completed mission, applies the
  rewards to the game state.
\<close>

definition arrivalMissionCheck ::
  "MissionState \<Rightarrow> GameState \<Rightarrow> string \<Rightarrow> MissionState \<times> GameState" where
  "arrivalMissionCheck missionState state currentSystemId =
     (let (ms, done, result) = checkMissionObjectives missionState currentSystemId
      in case result of
           None \<Rightarrow> (ms, state)
         | Some mission \<Rightarrow>
             if done
             then (ms, state\<lparr>torpedoCount := min 64 (torpedoCount state + torpedoReward mission),
                             GameState.shieldStrength :=
                               min 100 (GameState.shieldStrength state + shieldReward mission)\<rparr>)
             else (ms, state))"

text \<open>
  The part of \<^verbatim>\<open>restartGame\<close> (\<^verbatim>\<open>EnterpriseGame.vue\<close>) that resets the game state; with the
  mission reward above and the decrement in \<^verbatim>\<open>updateWeapons\<close> it is one of the three
  places that write \<open>torpedoCount\<close>.
\<close>

definition restartGame :: "GameState \<Rightarrow> GameState" where
  "restartGame state =
     state\<lparr>GameState.position := Vector3 0 0 0, GameState.quaternion := Quaternion 0 0 0 1,
           GameState.velocity := Vector3 0 0 0, throttle := 0, GameState.speed := 0,
           isWarp := False, shieldsActive := False, GameState.shieldStrength := 100,
           phaserCharge := 100, torpedoCount := 64, GameState.phaserFiring := False,
           torpedoFiring := False\<rparr>"

section \<open>States used as examples\<close>

text \<open>A ship fresh from \<^verbatim>\<open>createShipHealth(100)\<close> with its shields raised, and a combat state in
  which both ships have taken a destroying hit before the timers ran.\<close>

definition shieldedShip :: ShipHealth where
  "shieldedShip = (createShipHealth 100)\<lparr>shieldsUp := True\<rparr>"

definition bothDestroyed :: CombatState where
  "bothDestroyed = combatCalls createCombatState [DamagePlayer 100, DamageEnemy 100]"

text \<open>Key presses: warp engaged at throttle level 5, all stop, and the torpedo key.\<close>

definition engageWarpKeys :: InputManager where
  "engageWarpKeys =
     \<lparr>keys = {''Digit5'', ''CapsLock''}, justPressed = {''Digit5'', ''CapsLock''}\<rparr>"

definition allStopKeys :: InputManager where
  "allStopKeys = \<lparr>keys = {''Digit0''}, justPressed = {''Digit0''}\<rparr>"

definition torpedoKeys :: InputManager where
  "torpedoKeys = \<lparr>keys = {''KeyT''}, justPressed = {''KeyT''}\<rparr>"

text \<open>The initial ship after one frame with \<open>engageWarpKeys\<close>, and a ship out of torpedoes.\<close>

definition warpingShip :: GameState where
  "warpingShip = fst (updateShip createGameState engageWarpKeys (1/60))"

definition emptyTubes :: GameState where
  "emptyTubes = createGameState\<lparr>torpedoCount := 0\<rparr>"

text \<open>The torpedo that the launch block of \<^verbatim>\<open>updateWeapons\<close> creates for a game state.\<close>

definition torpedoLaunch :: "GameState \<Rightarrow> PhotonTorpedo" where
  "torpedoLaunch g = createTorpedoMesh
     (addVectors (applyQuaternion TORPEDO_ORIGIN_OFFSET (GameState.quaternion g))
        (GameState.position g))
     (applyQuaternion (Vector3 0 0 (- 1)) (GameState.quaternion g))"





text \<open>
  The initial ship holding the phaser trigger, an enemy 100 units straight ahead, and two
  enemies at the same angle off the bow (dot product 0.8), one 5 units and one 200 units away.
\<close>

definition firingPlayer :: GameState where
  "firingPlayer = createGameState\<lparr>GameState.phaserFiring := True\<rparr>"

definition enemyAhead :: Vector3 where
  "enemyAhead = Vector3 0 0 (- 100)"

definition enemyOffAxisNear :: Vector3 where
  "enemyOffAxisNear = Vector3 3 0 (- 4)"

definition enemyOffAxisFar :: Vector3 where
  "enemyOffAxisFar = Vector3 120 0 (- 160)"

text \<open>The mission state after the first mission, a journey to Vulcan, has been accepted.\<close>

definition vulcanMission :: MissionState where
  "vulcanMission = fst (acceptMission createMissionState ''mission-0'')"

section \<open>Properties of the damage model\<close>

lemma createShipHealth_fields:
  "hull_hp (createShipHealth m) = m" "maxHull (createShipHealth m) = m"
  "\<not> shieldsUp (createShipHealth m)" "shieldStrength (createShipHealth m) = 100"
  "\<not> isDestroyed (createShipHealth m)" "damageFlash (createShipHealth m) = 0"
  by (simp_all add: createShipHealth_def)

lemma applyDamage_unshielded_fresh:
  "0 < m \<Longrightarrow> applyDamage (createShipHealth m) r =
     (createShipHealth m)\<lparr>hull_hp := max 0 (m - r), damageFlash := 1, isDestroyed := (m \<le> r)\<rparr>"
  by (auto simp add: applyDamage_def shieldStage_def createShipHealth_def Let_def max_def)

lemma bothDestroyed_fields:
  "gameOver bothDestroyed = None"
  "isDestroyed (playerHealth bothDestroyed)"
  "isDestroyed (enemyHealth bothDestroyed)"
  by (simp_all add: bothDestroyed_def combatCalls_def createCombatState_def
        applyDamage_unshielded_fresh)

text \<open>
  C1. On a ship that is not destroyed and has its shields up with positive strength,
  \<^verbatim>\<open>applyDamage\<close> absorbs \<open>rawDamage * 0.7\<close>, lowers the shield strength by half of the
  absorbed amount (not below 0) and lowers the hull by \<open>rawDamage - absorbed\<close> (not below 0).
  With shield strength 100 and raw damage 10 the shield strength becomes 96.5 and the hull
  loses 3 (exactly 3 when it had at least 3 to lose).
\<close>

theorem applyDamage_shields_absorb:
  assumes "\<not> isDestroyed h" and "shieldsUp h" and "0 < shieldStrength h"
  shows "SHIELD_ABSORPTION = 0.7
       \<and> shieldStrength (applyDamage h r)
           = max 0 (shieldStrength h - (r * SHIELD_ABSORPTION) * 0.5)
       \<and> hull_hp (applyDamage h r) = max 0 (hull_hp h - (r - r * SHIELD_ABSORPTION))
       \<and> (shieldStrength h = 100 \<and> r = 10 \<longrightarrow>
            shieldStrength (applyDamage h r) = 96.5
          \<and> hull_hp (applyDamage h r) = max 0 (hull_hp h - 3)
          \<and> (3 \<le> hull_hp h \<longrightarrow> hull_hp h - hull_hp (applyDamage h r) = 3))"
  using assms
  by (simp add: applyDamage_def shieldStage_def SHIELD_ABSORPTION_def Let_def
        split: prod.splits)

theorem applyDamage_shields_absorb_witness:
  "\<not> isDestroyed shieldedShip \<and> shieldsUp shieldedShip \<and> 0 < shieldStrength shieldedShip
   \<and> shieldStrength shieldedShip = 100 \<and> 3 \<le> hull_hp shieldedShip
   \<and> shieldStrength (applyDamage shieldedShip 10) = 96.5
   \<and> hull_hp (applyDamage shieldedShip 10) = 97
   \<and> hull_hp shieldedShip - hull_hp (applyDamage shieldedShip 10) = 3"
proof -
  have pre: "\<not> isDestroyed shieldedShip" "shieldsUp shieldedShip"
    "0 < shieldStrength shieldedShip"
    by (simp_all add: shieldedShip_def createShipHealth_def)
  have vals: "shieldStrength shieldedShip = 100" "hull_hp shieldedShip = 100"
    by (simp_all add: shieldedShip_def createShipHealth_def)
  from applyDamage_shields_absorb [OF pre, of 10] pre vals show ?thesis
    by simp
qed

text \<open>
  C2. On a destroyed ship \<^verbatim>\<open>applyDamage\<close> returns at once: whatever the raw damage
  (negative, zero or huge), the record is the one it was given, field by field.
\<close>

theorem applyDamage_destroyed_noop:
  "isDestroyed h \<Longrightarrow> applyDamage h r = h"
  by (simp add: applyDamage_def)

theorem applyDamage_destroyed_noop_witness:
  "isDestroyed (playerHealth bothDestroyed)
   \<and> applyDamage (playerHealth bothDestroyed) (-5) = playerHealth bothDestroyed
   \<and> applyDamage (playerHealth bothDestroyed) 0 = playerHealth bothDestroyed
   \<and> applyDamage (playerHealth bothDestroyed) 1000000 = playerHealth bothDestroyed"
  using applyDamage_destroyed_noop [of "playerHealth bothDestroyed"]
  by (simp add: bothDestroyed_fields)

text \<open>
  C5, as the claim states it, fails: \<^verbatim>\<open>applyDamage(target, 0)\<close> does not leave every field as
  it was. On a fresh ship the damage flash goes from 0 to 1, and a ship that stands at hull 0
  without being marked destroyed is marked destroyed.
\<close>

theorem applyDamage_zero_counterexample:
  "applyDamage (createShipHealth 100) 0 \<noteq> createShipHealth 100
   \<and> damageFlash (createShipHealth 100) = 0
   \<and> damageFlash (applyDamage (createShipHealth 100) 0) = 1
   \<and> \<not> isDestroyed (createShipHealth 0)
   \<and> isDestroyed (applyDamage (createShipHealth 0) 0)"
  by (simp add: applyDamage_def shieldStage_def createShipHealth_def Let_def)

text \<open>
  C5, amended. On a ship that is not destroyed, \<^verbatim>\<open>applyDamage(target, 0)\<close> leaves
  \<open>maxHull\<close>, \<open>shieldsUp\<close> and \<open>shieldStrength\<close> as they were, sets the damage flash to 1, sets
  the hull to \<open>max 0 hull\<close> and marks the ship destroyed exactly when its hull is not
  positive; with a positive hull the damage flash is the only field that changes. (On a
  destroyed ship nothing changes, which is C2.)
\<close>

theorem applyDamage_zero_damage:
  assumes "\<not> isDestroyed h"
  shows "applyDamage h 0 =
           h\<lparr>hull_hp := max 0 (hull_hp h), damageFlash := 1, isDestroyed := (hull_hp h \<le> 0)\<rparr>
       \<and> (0 < hull_hp h \<longrightarrow> applyDamage h 0 = h\<lparr>damageFlash := 1\<rparr>)"
  using assms
  by (cases h)
     (auto simp add: applyDamage_def shieldStage_def SHIELD_ABSORPTION_def Let_def max_def)

theorem applyDamage_zero_damage_witness:
  "\<not> isDestroyed (createShipHealth 100) \<and> 0 < hull_hp (createShipHealth 100)
   \<and> applyDamage (createShipHealth 100) 0 = (createShipHealth 100)\<lparr>damageFlash := 1\<rparr>"
  using applyDamage_zero_damage [of "createShipHealth 100"]
  by (simp add: createShipHealth_fields)

text \<open>
  C10. \<^verbatim>\<open>applyDamage\<close> never clamps the hull from above: on a ship that is not destroyed and
  whose shields are down (\<open>shieldsUp\<close> false, or shield strength 0) the new hull is
  \<open>max 0 (hull - rawDamage)\<close> and \<open>maxHull\<close> is not consulted, so a negative raw damage
  strictly increases the hull, and raises it above \<open>maxHull\<close> when the hull was at
  \<open>maxHull\<close> or above.
\<close>

theorem applyDamage_hull_unclamped:
  assumes "\<not> isDestroyed h" and "\<not> shieldsUp h \<or> shieldStrength h = 0"
  shows "hull_hp (applyDamage h r) = max 0 (hull_hp h - r)
       \<and> maxHull (applyDamage h r) = maxHull h
       \<and> (r < 0 \<longrightarrow> hull_hp h < hull_hp (applyDamage h r))
       \<and> (r < 0 \<and> maxHull h \<le> hull_hp h \<longrightarrow>
            maxHull (applyDamage h r) < hull_hp (applyDamage h r))"
  using assms
  by (auto simp add: applyDamage_def shieldStage_def Let_def max_def)

theorem applyDamage_hull_unclamped_witness:
  "\<not> isDestroyed (createShipHealth 100) \<and> \<not> shieldsUp (createShipHealth 100)
   \<and> (- 10 :: real) < 0 \<and> maxHull (createShipHealth 100) \<le> hull_hp (createShipHealth 100)
   \<and> hull_hp (applyDamage (createShipHealth 100) (- 10)) = 110
   \<and> maxHull (applyDamage (createShipHealth 100) (- 10)) = 100"
  using applyDamage_hull_unclamped [of "createShipHealth 100" "- 10"]
  by (simp add: createShipHealth_fields)

section \<open>The outcome of the game\<close>

lemma combatCall_keeps_gameOver:
  "gameOver c = Some g \<Longrightarrow> gameOver (combatCall c call) = Some g"
  by (cases call) (simp_all add: updateCombatTimers_def Let_def)

lemma combatCalls_keeps_gameOver:
  "gameOver c = Some g \<Longrightarrow> gameOver (combatCalls c calls) = Some g"
  unfolding combatCalls_def
  by (induction calls arbitrary: c) (simp_all add: combatCall_keeps_gameOver)

lemma combatCalls_append:
  "combatCalls c (xs @ ys) = combatCalls (combatCalls c xs) ys"
  by (simp add: combatCalls_def)

lemma updateCombatTimers_gameOver:
  "gameOver (updateCombatTimers c delta) =
     (case gameOver c of
        Some g \<Rightarrow> Some g
      | None \<Rightarrow> if isDestroyed (enemyHealth c) then Some victory
                else if isDestroyed (playerHealth c) then Some defeat else None)"
  by (simp add: updateCombatTimers_def Let_def decayFlash_def split: option.splits)

text \<open>
  C3. Along any sequence of \<^verbatim>\<open>applyDamage\<close> and \<^verbatim>\<open>updateCombatTimers\<close> calls on a combat
  state, once \<open>gameOver\<close> holds an outcome after \<open>i\<close> calls it holds the same outcome after
  any \<open>j \<ge> i\<close> calls: it leaves \<^verbatim>\<open>null\<close> at most once, for one of \<open>victory\<close> and \<open>defeat\<close> (the
  only two values of the type), and is never changed again.
\<close>

theorem gameOver_set_at_most_once:
  assumes "i \<le> j" and "gameOver (combatCalls c (take i calls)) = Some g"
  shows "gameOver (combatCalls c (take j calls)) = Some g"
proof -
  from \<open>i \<le> j\<close> have "take j calls = take i calls @ drop i (take j calls)"
    by (metis append_take_drop_id min.absorb_iff1 take_take)
  then have "combatCalls c (take j calls)
      = combatCalls (combatCalls c (take i calls)) (drop i (take j calls))"
    by (metis combatCalls_append)
  with assms(2) show ?thesis
    by (simp add: combatCalls_keeps_gameOver)
qed

theorem gameOver_set_at_most_once_witness:
  "gameOver createCombatState = None
   \<and> (2::nat) \<le> 4
   \<and> gameOver (combatCalls createCombatState
        (take 2 [DamageEnemy 100, Timers (1/60), DamagePlayer 100, Timers (1/60)]))
       = Some victory
   \<and> gameOver (combatCalls createCombatState
        (take 4 [DamageEnemy 100, Timers (1/60), DamagePlayer 100, Timers (1/60)]))
       = Some victory"
proof -
  have a: "gameOver (combatCalls createCombatState
        (take 2 [DamageEnemy 100, Timers (1/60), DamagePlayer 100, Timers (1/60)]))
       = Some victory"
    by (simp add: combatCalls_def createCombatState_def applyDamage_unshielded_fresh
          updateCombatTimers_gameOver)
  from gameOver_set_at_most_once [of 2 4, OF _ a] a show ?thesis
    by (simp add: createCombatState_def)
qed

text \<open>
  C4, as the claim states it, fails: when the timers run with \<open>gameOver\<close> still \<^verbatim>\<open>null\<close> and
  both ships destroyed, the outcome is not \<open>defeat\<close>.
\<close>

theorem both_destroyed_counterexample:
  "gameOver bothDestroyed = None
   \<and> isDestroyed (playerHealth bothDestroyed) \<and> isDestroyed (enemyHealth bothDestroyed)
   \<and> gameOver (updateCombatTimers bothDestroyed (1/60)) \<noteq> Some defeat"
  by (simp add: bothDestroyed_fields updateCombatTimers_gameOver)

text \<open>
  C4, amended. When \<^verbatim>\<open>updateCombatTimers\<close> runs with \<open>gameOver\<close> \<^verbatim>\<open>null\<close>, the enemy is tested
  first: the outcome is \<open>victory\<close> if the enemy is destroyed (also when the player is),
  \<open>defeat\<close> if only the player is destroyed, and stays \<^verbatim>\<open>null\<close> otherwise.
\<close>

theorem updateCombatTimers_enemy_first:
  assumes "gameOver c = None"
  shows "gameOver (updateCombatTimers c delta) =
           (if isDestroyed (enemyHealth c) then Some victory
            else if isDestroyed (playerHealth c) then Some defeat else None)"
  using assms by (simp add: updateCombatTimers_gameOver)

theorem updateCombatTimers_enemy_first_witness:
  "gameOver bothDestroyed = None
   \<and> isDestroyed (playerHealth bothDestroyed) \<and> isDestroyed (enemyHealth bothDestroyed)
   \<and> gameOver (updateCombatTimers bothDestroyed (1/60)) = Some victory"
  using updateCombatTimers_enemy_first [of bothDestroyed "1/60"]
  by (simp add: bothDestroyed_fields)

section \<open>The flight model: warp and throttle\<close>

lemma digitCodes:
  "map digitCode [0..<10] = [''Digit0'', ''Digit1'', ''Digit2'', ''Digit3'', ''Digit4'',
      ''Digit5'', ''Digit6'', ''Digit7'', ''Digit8'', ''Digit9'']"
  by (simp add: digitCode_def upt_rec)

lemma wasJustPressed_other:
  "code' \<noteq> code \<Longrightarrow>
   (code' \<in> justPressed (snd (wasJustPressed inp code))) = (code' \<in> justPressed inp)"
  by (simp add: wasJustPressed_def)

lemma wasJustPressed_hit: "fst (wasJustPressed inp code) = (code \<in> justPressed inp)"
  by (simp add: wasJustPressed_def)

lemma throttleKey_frame:
  "isWarp (fst (throttleKey si d)) = isWarp (fst si)"
  "torpedoCount (fst (throttleKey si d)) = torpedoCount (fst si)"
  by (simp_all add: throttleKey_def wasJustPressed_def split: prod.splits)

lemma throttleKey_other:
  "code \<noteq> digitCode d \<Longrightarrow>
   (code \<in> justPressed (snd (throttleKey si d))) = (code \<in> justPressed (snd si))"
  by (simp add: throttleKey_def wasJustPressed_def split: prod.splits)

lemma throttleKeys_frame:
  "isWarp (fst (foldl throttleKey si ds)) = isWarp (fst si)"
  "torpedoCount (fst (foldl throttleKey si ds)) = torpedoCount (fst si)"
  by (induction ds arbitrary: si) (simp_all add: throttleKey_frame)

lemma throttleKeys_other:
  "code \<notin> set (map digitCode ds) \<Longrightarrow>
   (code \<in> justPressed (snd (foldl throttleKey si ds))) = (code \<in> justPressed (snd si))"
  by (induction ds arbitrary: si) (simp_all add: throttleKey_other)

lemma setThrottle_frame:
  "isWarp (fst (setThrottle s inp)) = isWarp s"
  "torpedoCount (fst (setThrottle s inp)) = torpedoCount s"
  by (simp_all add: setThrottle_def throttleKeys_frame)

lemma setThrottle_other:
  "code \<notin> set (map digitCode [0..<10]) \<Longrightarrow>
   (code \<in> justPressed (snd (setThrottle s inp))) = (code \<in> justPressed inp)"
  using throttleKeys_other [of code "[0..<10]" "(s, inp)"] by (simp add: setThrottle_def)

lemma rotateShip_frame:
  "isWarp (rotateShip s inp d) = isWarp s"
  "throttle (rotateShip s inp d) = throttle s"
  "torpedoCount (rotateShip s inp d) = torpedoCount s"
  by (simp_all add: rotateShip_def Let_def)

lemma integrateSpeed_frame:
  "isWarp (integrateSpeed s d) = isWarp s"
  "throttle (integrateSpeed s d) = throttle s"
  "torpedoCount (integrateSpeed s d) = torpedoCount s"
  by (simp_all add: integrateSpeed_def Let_def)

lemma integratePosition_frame:
  "isWarp (integratePosition s d) = isWarp s"
  "throttle (integratePosition s d) = throttle s"
  "torpedoCount (integratePosition s d) = torpedoCount s"
  by (simp_all add: integratePosition_def Let_def)

lemma weaponTriggers_frame:
  "isWarp (fst (weaponTriggers s inp d)) = isWarp s"
  "throttle (fst (weaponTriggers s inp d)) = throttle s"
  "torpedoCount (fst (weaponTriggers s inp d)) = torpedoCount s"
  by (simp_all add: weaponTriggers_def Let_def split: prod.splits)

lemma shieldControl_frame:
  "isWarp (fst (shieldControl s inp d)) = isWarp s"
  "throttle (fst (shieldControl s inp d)) = throttle s"
  "torpedoCount (fst (shieldControl s inp d)) = torpedoCount s"
  "torpedoFiring (fst (shieldControl s inp d)) = torpedoFiring s"
  by (simp_all add: shieldControl_def Let_def split: prod.splits)

lemma warpToggle_frame:
  "throttle (fst (warpToggle s inp)) = throttle s"
  "torpedoCount (fst (warpToggle s inp)) = torpedoCount s"
  by (simp_all add: warpToggle_def Let_def split: prod.splits)

lemma warpToggle_other:
  "code \<noteq> ''CapsLock'' \<Longrightarrow>
   (code \<in> justPressed (snd (warpToggle s inp))) = (code \<in> justPressed inp)"
  by (simp add: warpToggle_def Let_def case_prod_beta wasJustPressed_other)

lemma warpToggle_isWarp:
  "isWarp (fst (warpToggle s inp)) =
     (if ''CapsLock'' \<in> justPressed inp then \<not> isWarp s \<and> throttle s > 0.1
      else isWarp s \<and> throttle s > 0.05)"
  by (auto simp add: warpToggle_def wasJustPressed_def Let_def split: prod.splits)

lemma updateShip_throttle:
  "throttle (fst (updateShip s inp d)) = throttle (fst (setThrottle (rotateShip s inp d) inp))"
  by (simp add: updateShip_def Let_def case_prod_beta shieldControl_frame weaponTriggers_frame
        integratePosition_frame integrateSpeed_frame warpToggle_frame)

text \<open>The warp flag after a frame, in terms of the flag before it and the throttle after it.\<close>

lemma updateShip_isWarp:
  "isWarp (fst (updateShip s inp d)) =
     (if ''CapsLock'' \<in> justPressed inp
      then \<not> isWarp s \<and> throttle (fst (updateShip s inp d)) > 0.1
      else isWarp s \<and> throttle (fst (updateShip s inp d)) > 0.05)"
proof -
  obtain s2 i2 where st: "setThrottle (rotateShip s inp d) inp = (s2, i2)"
    by (cases "setThrottle (rotateShip s inp d) inp")
  have caps: "(''CapsLock'' \<in> justPressed i2) = (''CapsLock'' \<in> justPressed inp)"
    using setThrottle_other [of "''CapsLock''" "rotateShip s inp d" inp] st
    by (simp add: digitCodes)
  have w2: "isWarp s2 = isWarp s"
    using setThrottle_frame(1) [of "rotateShip s inp d" inp] st
    by (simp add: rotateShip_frame)
  have thr: "throttle (fst (updateShip s inp d)) = throttle s2"
    by (simp add: updateShip_throttle st)
  have "isWarp (fst (updateShip s inp d)) = isWarp (fst (warpToggle s2 i2))"
    by (simp add: updateShip_def Let_def case_prod_beta st shieldControl_frame
        weaponTriggers_frame integratePosition_frame integrateSpeed_frame)
  then show ?thesis
    by (simp only: warpToggle_isWarp caps w2 thr)
qed

lemma warpingShip_fields: "throttle warpingShip = 5 / 9" "isWarp warpingShip"
proof -
  show t: "throttle warpingShip = 5 / 9"
    by (simp add: warpingShip_def engageWarpKeys_def updateShip_throttle setThrottle_def upt_rec
          throttleKey_def wasJustPressed_def digitCode_def)
  show "isWarp warpingShip"
    using updateShip_isWarp [of createGameState engageWarpKeys "1/60"] t
    by (simp add: warpingShip_def engageWarpKeys_def createGameState_def)
qed

lemma allStop_throttle: "throttle (fst (updateShip warpingShip allStopKeys (1/60))) = 0"
  by (simp add: allStopKeys_def updateShip_throttle setThrottle_def upt_rec
          throttleKey_def wasJustPressed_def digitCode_def)

text \<open>
  C6. After every call of \<^verbatim>\<open>updateShip\<close>, for any state, input and time step, a ship at warp
  has its throttle above 0.05. In particular a ship that was at warp and whose throttle is
  at most 0.05 after the frame has left warp although the warp key was not pressed; and a
  ship enters warp in a frame only by a press of the warp key with the throttle above the
  engage threshold 0.1.
\<close>

theorem updateShip_warp_needs_throttle:
  "(isWarp (fst (updateShip s inp d)) \<longrightarrow> throttle (fst (updateShip s inp d)) > 0.05)
   \<and> (''CapsLock'' \<notin> justPressed inp \<and> isWarp s
        \<and> throttle (fst (updateShip s inp d)) \<le> 0.05
        \<longrightarrow> \<not> isWarp (fst (updateShip s inp d)))
   \<and> (\<not> isWarp s \<and> isWarp (fst (updateShip s inp d))
        \<longrightarrow> ''CapsLock'' \<in> justPressed inp \<and> throttle (fst (updateShip s inp d)) > 0.1)"
  using updateShip_isWarp [of s inp d]
  by (auto split: if_splits)

theorem updateShip_warp_needs_throttle_witness:
  "\<not> isWarp createGameState \<and> ''CapsLock'' \<in> justPressed engageWarpKeys
   \<and> isWarp warpingShip \<and> throttle warpingShip = 5 / 9
   \<and> ''CapsLock'' \<notin> justPressed allStopKeys
   \<and> throttle (fst (updateShip warpingShip allStopKeys (1/60))) = 0
   \<and> \<not> isWarp (fst (updateShip warpingShip allStopKeys (1/60)))"
  using updateShip_warp_needs_throttle [of createGameState engageWarpKeys "1/60"]
    updateShip_warp_needs_throttle [of warpingShip allStopKeys "1/60"]
    warpingShip_fields allStop_throttle
  by (simp add: warpingShip_def [symmetric] createGameState_def engageWarpKeys_def
        allStopKeys_def)

section \<open>Torpedo ammunition\<close>

lemma weaponTriggers_torpedoFiring:
  "torpedoFiring (fst (weaponTriggers s inp d))
     = (''KeyT'' \<in> justPressed inp \<and> torpedoCount s > 0)"
  by (simp add: weaponTriggers_def Let_def case_prod_beta wasJustPressed_hit)

lemma updateShip_torpedoCount:
  "torpedoCount (fst (updateShip s inp d)) = torpedoCount s"
  by (simp add: updateShip_def Let_def case_prod_beta shieldControl_frame weaponTriggers_frame
        integratePosition_frame integrateSpeed_frame warpToggle_frame setThrottle_frame
        rotateShip_frame)

lemma updateShip_torpedoFiring:
  "torpedoFiring (fst (updateShip s inp d))
     = (''KeyT'' \<in> justPressed inp \<and> torpedoCount s > 0)"
  by (simp add: updateShip_def Let_def case_prod_beta shieldControl_frame
        weaponTriggers_torpedoFiring weaponTriggers_frame
        integratePosition_frame integrateSpeed_frame warpToggle_frame setThrottle_frame
        rotateShip_frame warpToggle_other setThrottle_other digitCodes)

lemma drainPhasers_frame:
  "torpedoCount (drainPhasers g d) = torpedoCount g"
  "torpedoFiring (drainPhasers g d) = torpedoFiring g"
  "GameState.quaternion (drainPhasers g d) = GameState.quaternion g"
  "GameState.position (drainPhasers g d) = GameState.position g"
  by (simp_all add: drainPhasers_def Let_def)

lemma firePhasers_torpedoes: "torpedoes (firePhasers ws g d) = torpedoes ws"
  by (simp add: firePhasers_def Let_def)

lemma updateWeapons_torpedoCount:
  "torpedoCount (snd (updateWeapons ws g d)) =
     (if torpedoFiring g \<and> torpedoCount g > 0 then torpedoCount g - 1 else torpedoCount g)"
  by (simp add: updateWeapons_def Let_def case_prod_beta fireTorpedo_def drainPhasers_frame)

lemma updateWeapons_torpedoes:
  "torpedoes (fst (updateWeapons ws g d)) =
     ageTorpedoes (if torpedoFiring g \<and> torpedoCount g > 0
                   then torpedoes ws @ [torpedoLaunch g] else torpedoes ws) d"
  by (simp add: updateWeapons_def Let_def case_prod_beta fireTorpedo_def drainPhasers_frame
        firePhasers_torpedoes torpedoLaunch_def)

lemma ageTorpedoes_length: "length (ageTorpedoes ts d) \<le> length ts"
  by (simp add: ageTorpedoes_def le_trans [OF length_filter_le])

lemma firedShip:
  "torpedoFiring (fst (updateShip createGameState torpedoKeys (1/60)))"
  "torpedoCount (fst (updateShip createGameState torpedoKeys (1/60))) = 64"
  by (simp_all add: updateShip_torpedoFiring updateShip_torpedoCount torpedoKeys_def
        createGameState_def INITIAL_TORPEDO_COUNT_def)

lemma arrival_torpedoCount:
  "torpedoCount (snd (arrivalMissionCheck ms g sys)) =
     (case snd (snd (checkMissionObjectives ms sys)) of
        None \<Rightarrow> torpedoCount g
      | Some m \<Rightarrow> if fst (snd (checkMissionObjectives ms sys))
                  then min 64 (torpedoCount g + torpedoReward m) else torpedoCount g)"
  by (simp add: arrivalMissionCheck_def Let_def case_prod_beta split: option.splits)

lemma vulcanMission_completes:
  "hasActiveMission vulcanMission"
  "fst (snd (checkMissionObjectives vulcanMission ''vulcan''))"
  "map_option torpedoReward (snd (snd (checkMissionObjectives vulcanMission ''vulcan'')))
     = Some 10"
  by (simp_all add: vulcanMission_def acceptMission_def createMissionState_def
        hasActiveMission_def MISSION_TEMPLATES_def enumerate_eq_zip upt_rec missionName_def
        template_def objective_def checkMissionObjectives_def Let_def)

text \<open>
  C7, as the claim states it, fails: \<open>torpedoCount\<close> is not restored by explicit reset only.
  A ship out of torpedoes that arrives at Vulcan with the mission to go there accepted has 10
  torpedoes after the arrival block of the game loop, and no reset has run.
\<close>

theorem mission_reward_counterexample:
  "torpedoCount emptyTubes = 0
   \<and> hasActiveMission vulcanMission
   \<and> torpedoCount (snd (arrivalMissionCheck vulcanMission emptyTubes ''vulcan'')) = 10"
proof -
  obtain m where m: "snd (snd (checkMissionObjectives vulcanMission ''vulcan'')) = Some m"
    and r: "torpedoReward m = 10"
    using vulcanMission_completes(3) by auto
  from m r vulcanMission_completes(1,2) show ?thesis
    by (simp add: arrival_torpedoCount emptyTubes_def)
qed

text \<open>
  C7, amended. \<open>torpedoCount\<close> is non-increasing under \<^verbatim>\<open>updateShip\<close> (which leaves it as it
  is) and under \<^verbatim>\<open>updateWeapons\<close>, where it goes down only by one, only on a fire intent, and
  only together with a torpedo appended to the active list before the ageing pass. It is
  raised in two places outside them: the reset of \<^verbatim>\<open>restartGame\<close> sets it to 64, and the
  reward of a mission completed on arrival in a system sets it to
  \<open>min 64 (torpedoCount + torpedoReward)\<close>. With \<open>torpedoCount = 0\<close>, a press of the torpedo
  key gives no fire intent, and the weapon update that follows spawns nothing and leaves the
  count at 0: the torpedo list is the ageing of the old one. The functions return plain
  states; there is no error to surface.
\<close>

theorem torpedoCount_non_increasing:
  "torpedoCount (fst (updateShip s inp d)) = torpedoCount s
   \<and> torpedoCount (snd (updateWeapons ws g d)) \<le> torpedoCount g
   \<and> (torpedoCount (snd (updateWeapons ws g d)) < torpedoCount g \<longrightarrow>
        torpedoFiring g
      \<and> torpedoCount (snd (updateWeapons ws g d)) = torpedoCount g - 1
      \<and> torpedoes (fst (updateWeapons ws g d))
          = ageTorpedoes (torpedoes ws @ [torpedoLaunch g]) d)
   \<and> torpedoCount (restartGame g) = 64
   \<and> torpedoCount (snd (arrivalMissionCheck ms g sys)) =
        (case snd (snd (checkMissionObjectives ms sys)) of
           None \<Rightarrow> torpedoCount g
         | Some m \<Rightarrow> if fst (snd (checkMissionObjectives ms sys))
                     then min 64 (torpedoCount g + torpedoReward m) else torpedoCount g)
   \<and> (torpedoCount s = 0 \<longrightarrow> \<not> torpedoFiring (fst (updateShip s inp d)))
   \<and> (torpedoCount g = 0 \<longrightarrow>
        torpedoCount (snd (updateWeapons ws g d)) = 0
      \<and> torpedoes (fst (updateWeapons ws g d)) = ageTorpedoes (torpedoes ws) d
      \<and> length (torpedoes (fst (updateWeapons ws g d))) \<le> length (torpedoes ws))
   \<and> (torpedoCount s = 0 \<and> ''KeyT'' \<in> justPressed inp \<longrightarrow>
        torpedoCount (snd (updateWeapons ws (fst (updateShip s inp d)) d)) = 0
      \<and> torpedoes (fst (updateWeapons ws (fst (updateShip s inp d)) d))
          = ageTorpedoes (torpedoes ws) d)"
proof -
  have reset: "torpedoCount (restartGame g) = 64"
    by (simp add: restartGame_def)
  from reset arrival_torpedoCount [of ms g sys] show ?thesis
    by (simp add: updateShip_torpedoCount updateShip_torpedoFiring updateWeapons_torpedoCount
          updateWeapons_torpedoes ageTorpedoes_length)
qed

theorem torpedoCount_non_increasing_witness:
  "torpedoCount emptyTubes = 0 \<and> ''KeyT'' \<in> justPressed torpedoKeys
   \<and> \<not> torpedoFiring (fst (updateShip emptyTubes torpedoKeys (1/60)))
   \<and> torpedoCount (snd (updateWeapons createWeaponSystem
        (fst (updateShip emptyTubes torpedoKeys (1/60))) (1/60))) = 0
   \<and> torpedoes (fst (updateWeapons createWeaponSystem
        (fst (updateShip emptyTubes torpedoKeys (1/60))) (1/60))) = []
   \<and> torpedoes (fst (updateWeapons createWeaponSystem emptyTubes (1/60))) = []
   \<and> torpedoCount (snd (updateWeapons createWeaponSystem
        (fst (updateShip createGameState torpedoKeys (1/60))) (1/60))) = 63
   \<and> length (torpedoes (fst (updateWeapons createWeaponSystem
        (fst (updateShip createGameState torpedoKeys (1/60))) (1/60)))) = 1
   \<and> torpedoCount (restartGame emptyTubes) = 64
   \<and> torpedoCount (snd (arrivalMissionCheck vulcanMission emptyTubes ''vulcan'')) = 10"
proof -
  let ?g = "fst (updateShip createGameState torpedoKeys (1/60))"
  have e: "torpedoCount emptyTubes = 0" "''KeyT'' \<in> justPressed torpedoKeys"
    "torpedoes createWeaponSystem = []"
    by (simp_all add: emptyTubes_def torpedoKeys_def createWeaponSystem_def)
  have c63: "torpedoCount (snd (updateWeapons createWeaponSystem ?g (1/60))) = 63"
    by (simp add: updateWeapons_torpedoCount firedShip)
  have aged: "length (ageTorpedoes [torpedoLaunch ?g] (1/60)) = 1"
    by (simp add: ageTorpedoes_def torpedoLaunch_def createTorpedoMesh_def updateTorpedo_def
          steerTorpedo_def Let_def)
  obtain m where m: "snd (snd (checkMissionObjectives vulcanMission ''vulcan'')) = Some m"
    and r: "torpedoReward m = 10"
    using vulcanMission_completes(3) by auto
  from torpedoCount_non_increasing
         [of emptyTubes torpedoKeys "1/60" createWeaponSystem emptyTubes vulcanMission "''vulcan''"]
    torpedoCount_non_increasing
         [of emptyTubes torpedoKeys "1/60" createWeaponSystem ?g vulcanMission "''vulcan''"]
    e c63 firedShip aged m r vulcanMission_completes(2)
  show ?thesis
    by (simp add: ageTorpedoes_def)
qed

section \<open>Phaser hits\<close>

lemma minDot_in_range:
  "d \<le> 200 \<Longrightarrow> max (0.85::real) (1.0 - (30 / max d 1)) = 0.85"
proof -
  assume "d \<le> 200"
  then have "max d 1 \<le> 200" and "0 < max d 1" by auto
  then have "30 / 200 \<le> 30 / max d 1"
    by (intro divide_left_mono) auto
  then show ?thesis by (simp add: max_def)
qed

text \<open>The ship's forward axis: the vector \<open>(0, 0, -1)\<close> turned by the orientation.\<close>

lemma forward_axis:
  "applyQuaternion (Vector3 0 0 (- 1)) q =
     Vector3 (- 2 * (qw q * qy q + qx q * qz q))
             (2 * (qw q * qx q - qy q * qz q))
             (- (1 - 2 * (qx q * qx q + qy q * qy q)))"
  by (simp add: applyQuaternion_def Let_def algebra_simps)

lemma vlength_zero:
  assumes "vlength v = 0"
  shows "vx v = 0 \<and> vy v = 0 \<and> vz v = 0"
proof -
  from assms have "vx v * vx v + vy v * vy v + vz v * vz v = 0"
    by (simp add: vlength_def)
  then show ?thesis
    by (smt (verit) mult_nonneg_nonneg zero_le_square mult_eq_0_iff add_nonneg_eq_0_iff)
qed

lemma dot_normalize:
  "dot f (normalize v) = (if vlength v = 0 then 0 else dot f v / vlength v)"
proof (cases "vlength v = 0")
  case True
  with vlength_zero [OF True] show ?thesis
    by (simp add: normalize_def Let_def dot_def multiplyScalar_def)
next
  case False
  then show ?thesis
    by (simp add: normalize_def Let_def dot_def multiplyScalar_def add_divide_distrib)
qed

text \<open>
  C9. The claim is right and the code falls short of it. \<^verbatim>\<open>checkPhaserHits\<close> does apply
  damage exactly when the player's phaser intent is active, the enemy is not destroyed, the
  distance is at most the maximal range 200 and the dot product of the ship's forward axis
  with the direction to the enemy exceeds \<open>max 0.85 (1 - 30 / max distance 1)\<close>, and the
  damage of a hit is \<open>PHASER_DPS * delta = 8 * delta\<close>. But the tolerance is not more
  forgiving at close range, as the claim and the comment in the code (a spread that is wider
  at close range) have it: up to distance 200 the term \<open>1 - 30 / max distance 1\<close> is at most
  0.85, and beyond it nothing is hit, so the threshold is 0.85 at every distance and the test
  is \<open>forward \<bullet> (enemy - ship) > 0.85 * distance\<close>. The result of the function for every
  input, with the forward axis and the distance written out:
\<close>

theorem checkPhaserHits_fixed_tolerance:
  "checkPhaserHits combat ps ep delta =
     (let p = GameState.position ps; q = GameState.quaternion ps;
          dx = vx ep - vx p; dy = vy ep - vy p; dz = vz ep - vz p;
          dist = sqrt (dx * dx + dy * dy + dz * dz);
          fx = - 2 * (qw q * qy q + qx q * qz q);
          fy = 2 * (qw q * qx q - qy q * qz q);
          fz = - (1 - 2 * (qx q * qx q + qy q * qy q));
          hit = (GameState.phaserFiring ps \<and> \<not> isDestroyed (enemyHealth combat)
                 \<and> dist \<le> 200 \<and> fx * dx + fy * dy + fz * dz > 0.85 * dist)
      in (if hit then combat\<lparr>enemyHealth := applyDamage (enemyHealth combat) (8 * delta)\<rparr>
          else combat, hit))"
proof -
  let ?v = "subVectors ep (GameState.position ps)"
  let ?f = "applyQuaternion (Vector3 0 0 (- 1)) (GameState.quaternion ps)"
  have len: "0 \<le> vlength ?v" by (simp add: vlength_def)
  have test: "(dot ?f (normalize ?v) > 0.85) = (dot ?f ?v > 0.85 * vlength ?v)"
  proof (cases "vlength ?v = 0")
    case True
    from vlength_zero [OF True] have "dot ?f ?v = 0" by (simp add: dot_def)
    with True show ?thesis by (simp add: dot_normalize)
  next
    case False
    with len have "0 < vlength ?v" by simp
    then show ?thesis by (simp add: dot_normalize pos_less_divide_eq)
  qed
  have "checkPhaserHits combat ps ep delta =
     (let hit = (GameState.phaserFiring ps \<and> \<not> isDestroyed (enemyHealth combat)
                 \<and> vlength ?v \<le> 200 \<and> dot ?f ?v > 0.85 * vlength ?v)
      in (if hit then combat\<lparr>enemyHealth := applyDamage (enemyHealth combat) (8 * delta)\<rparr>
          else combat, hit))"
  proof (cases "GameState.phaserFiring ps \<and> \<not> isDestroyed (enemyHealth combat)
                 \<and> vlength ?v \<le> 200")
    case True
    then have m: "max 0.85 (1.0 - (30 / max (vlength ?v) 1)) = 0.85"
      by (intro minDot_in_range) simp
    have "checkPhaserHits combat ps ep delta =
            (if dot ?f (normalize ?v) > 0.85
             then (combat\<lparr>enemyHealth :=
                            applyDamage (enemyHealth combat) (PHASER_DPS * delta)\<rparr>, True)
             else (combat, False))"
      using True by (simp only: checkPhaserHits_def Let_def m) simp
    with True show ?thesis
      by (simp only: test) (simp add: PHASER_DPS_def)
  next
    case False
    then show ?thesis by (auto simp add: checkPhaserHits_def Let_def)
  qed
  then show ?thesis
    by (simp add: Let_def forward_axis dot_def vlength_def subVectors_def)
qed

theorem checkPhaserHits_fixed_tolerance_witness:
  "GameState.phaserFiring firingPlayer \<and> \<not> isDestroyed (enemyHealth createCombatState)
   \<and> vlength (subVectors enemyOffAxisNear (GameState.position firingPlayer)) = 5
   \<and> vlength (subVectors enemyOffAxisFar (GameState.position firingPlayer)) = 200
   \<and> dot (applyQuaternion (Vector3 0 0 (- 1)) (GameState.quaternion firingPlayer))
          (normalize (subVectors enemyOffAxisNear (GameState.position firingPlayer))) = 0.8
   \<and> dot (applyQuaternion (Vector3 0 0 (- 1)) (GameState.quaternion firingPlayer))
          (normalize (subVectors enemyOffAxisFar (GameState.position firingPlayer))) = 0.8
   \<and> checkPhaserHits createCombatState firingPlayer enemyOffAxisNear (1/60)
       = (createCombatState, False)
   \<and> checkPhaserHits createCombatState firingPlayer enemyOffAxisFar (1/60)
       = (createCombatState, False)
   \<and> snd (checkPhaserHits createCombatState firingPlayer enemyAhead (1/60))
   \<and> hull_hp (enemyHealth (fst (checkPhaserHits createCombatState firingPlayer enemyAhead (1/60))))
       = 100 - 2 / 15"
proof -
  have s: "sqrt 25 = 5" "sqrt 40000 = 200" "sqrt 10000 = 100"
    using real_sqrt_abs2 [of 5] real_sqrt_abs2 [of 200] real_sqrt_abs2 [of 100] by simp_all
  have l: "vlength (subVectors enemyOffAxisNear (GameState.position firingPlayer)) = 5"
    "vlength (subVectors enemyOffAxisFar (GameState.position firingPlayer)) = 200"
    by (simp_all add: enemyOffAxisNear_def enemyOffAxisFar_def firingPlayer_def
          createGameState_def subVectors_def vlength_def s)
  have d: "dot (applyQuaternion (Vector3 0 0 (- 1)) (GameState.quaternion firingPlayer))
          (normalize (subVectors enemyOffAxisNear (GameState.position firingPlayer))) = 0.8"
     "dot (applyQuaternion (Vector3 0 0 (- 1)) (GameState.quaternion firingPlayer))
          (normalize (subVectors enemyOffAxisFar (GameState.position firingPlayer))) = 0.8"
    by (simp_all add: dot_normalize l)
       (simp_all add: enemyOffAxisNear_def enemyOffAxisFar_def firingPlayer_def
          createGameState_def subVectors_def dot_def applyQuaternion_def)
  have p: "GameState.phaserFiring firingPlayer" "\<not> isDestroyed (enemyHealth createCombatState)"
    "enemyHealth createCombatState = createShipHealth 100"
    "GameState.position firingPlayer = Vector3 0 0 0"
    "GameState.quaternion firingPlayer = Quaternion 0 0 0 1"
    by (simp_all add: firingPlayer_def createGameState_def createCombatState_def
          createShipHealth_fields)
  from checkPhaserHits_fixed_tolerance [of createCombatState firingPlayer enemyOffAxisNear "1/60"]
    checkPhaserHits_fixed_tolerance [of createCombatState firingPlayer enemyOffAxisFar "1/60"]
    checkPhaserHits_fixed_tolerance [of createCombatState firingPlayer enemyAhead "1/60"]
    l d p s
  show ?thesis
    by (simp add: enemyOffAxisNear_def enemyOffAxisFar_def enemyAhead_def
          applyDamage_unshielded_fresh)
qed

section \<open>The enemy: from idle to alert to attack\<close>



















end
